theory Spec2Isabelle
  imports Main
begin

section \<open>The API chain of \<open>langchain/chains/api/base.py\<close>\<close>

text \<open>
  \<open>APIChain\<close> answers a question in two model calls around one HTTP request: the
  request chain turns the question and the API documentation into a URL, the requests
  wrapper fetches the URL, and the answer chain turns question, documentation, URL and
  response into the answer. The language model, the HTTP client, the callback manager
  and the output parser are collaborators the class only calls. They are arbitrary
  Python code: a call may raise, and it may read and change state outside the chain.
  A collaborator is therefore a function on a world \<open>'w\<close> that returns an error or a
  value together with the new world.
\<close>

subsection \<open>Exceptions\<close>

text \<open>
  \<open>KeyError\<close> is raised by a dictionary lookup, \<open>AttributeError\<close> by reading
  \<open>.prompt\<close> of an object that has none, \<open>ValueError\<close> by the two validators; its
  message is built from \<open>expected_vars\<close> and \<open>input_vars\<close>, which the constructor
  carries. \<open>Raised\<close> stands for any other exception a collaborator raises.
\<close>

datatype error =
    KeyError string
  | AttributeError string
  | ValueError "string set" "string list"
  | Raised string

subsection \<open>Collaborators\<close>

type_synonym kwargs = "string \<rightharpoonup> string"

type_synonym ('a, 'w) collaborator = "'w \<Rightarrow> (error + 'a) \<times> 'w"

record BasePromptTemplate =
  input_variables :: "string list"

record 'w LLMChain =
  prompt :: BasePromptTemplate
  predict :: "kwargs \<Rightarrow> (string, 'w) collaborator"
  apredict :: "kwargs \<Rightarrow> (string, 'w) collaborator"

record 'w TextRequestsWrapper =
  get :: "string \<Rightarrow> (string, 'w) collaborator"
  aget :: "string \<Rightarrow> (string, 'w) collaborator"

text \<open>\<open>on_text(text, color=..., end=..., verbose=...)\<close>\<close>

record 'w BaseCallbackManager =
  on_text :: "string \<Rightarrow> string \<Rightarrow> string \<Rightarrow> bool \<Rightarrow> (unit, 'w) collaborator"

text \<open>
  \<open>api_request_output_parser\<close> is declared \<open>Any\<close>, with default \<open>None\<close>. The pipeline
  does two things with its value: it tests it for truth (\<open>if parser:\<close>) and, when true,
  calls it on the fetched text. \<open>None\<close> is false; any other object is true unless its
  \<open>__bool__\<close> or \<open>__len__\<close> says otherwise, so a callable can be false. Calling
  an object that is not callable raises, which is an error of \<open>apply_parser\<close>.
\<close>

record 'w OutputParser =
  truthy :: bool
  apply_parser :: "string \<Rightarrow> (string, 'w) collaborator"

text \<open>
  The fields of the class, with \<open>callback_manager\<close> and \<open>verbose\<close> of its base class
  \<open>Chain\<close>.
\<close>

record 'w APIChain =
  api_request_chain :: "'w LLMChain"
  api_answer_chain :: "'w LLMChain"
  requests_wrapper :: "'w TextRequestsWrapper"
  api_docs :: string
  question_key :: string
  output_key :: string
  api_request_output_parser :: "'w OutputParser option"
  callback_manager :: "'w BaseCallbackManager"
  verbose :: bool

subsection \<open>The validators\<close>

text \<open>
  Both validators are \<open>root_validator(pre=True)\<close>: they receive the raw dictionary of
  constructor arguments, before any field is checked. An entry of that dictionary is
  an \<open>LLMChain\<close> or some other object, which has no \<open>prompt\<close>.
\<close>

datatype 'w pyobject = LLMChainObj "'w LLMChain" | OtherObj

type_synonym 'w raw_values = "string \<rightharpoonup> 'w pyobject"

definition chain_input_variables :: "'w raw_values \<Rightarrow> string \<Rightarrow> error + string list" where
  "chain_input_variables values k =
     (case values k of
        None \<Rightarrow> Inl (KeyError k)
      | Some OtherObj \<Rightarrow> Inl (AttributeError ''prompt'')
      | Some (LLMChainObj c) \<Rightarrow> Inr (input_variables (prompt c)))"

definition validate_api_request_prompt :: "'w raw_values \<Rightarrow> error + 'w raw_values" where
  "validate_api_request_prompt values =
     (case chain_input_variables values ''api_request_chain'' of
        Inl e \<Rightarrow> Inl e
      | Inr input_vars \<Rightarrow>
          (let expected_vars = {''question'', ''api_docs''}
           in if set input_vars \<noteq> expected_vars
              then Inl (ValueError expected_vars input_vars)
              else Inr values))"

definition validate_api_answer_prompt :: "'w raw_values \<Rightarrow> error + 'w raw_values" where
  "validate_api_answer_prompt values =
     (case chain_input_variables values ''api_answer_chain'' of
        Inl e \<Rightarrow> Inl e
      | Inr input_vars \<Rightarrow>
          (let expected_vars = {''question'', ''api_docs'', ''api_url'', ''api_response''}
           in if set input_vars \<noteq> expected_vars
              then Inl (ValueError expected_vars input_vars)
              else Inr values))"

text \<open>
  Constructing the chain runs the pre root validators in the order the class declares
  them, each on the dictionary the one before returned; the first exception ends the
  construction.
\<close>

definition pre_root_validators :: "'w raw_values \<Rightarrow> error + 'w raw_values" where
  "pre_root_validators values =
     (case validate_api_request_prompt values of
        Inl e \<Rightarrow> Inl e
      | Inr values' \<Rightarrow> validate_api_answer_prompt values')"

subsection \<open>Calls, their log, and exceptions\<close>

text \<open>
  A run of the chain is observed through the calls it makes. The log holds one event
  per call of a collaborator, in the order of the calls, with the arguments passed.
  \<open>predict\<close> and \<open>apredict\<close> of one chain are logged alike, and so are \<open>get\<close> and
  \<open>aget\<close>: the event names the collaborator and what it was given.
\<close>

datatype event =
    RequestPredict kwargs
  | OnText string string string bool
  | Get string
  | OutputParser string
  | AnswerPredict kwargs

type_synonym 'w state = "event list \<times> 'w"

type_synonym ('a, 'w) run = "'w state \<Rightarrow> (error + 'a) \<times> 'w state"

definition returnE :: "'a \<Rightarrow> ('a, 'w) run" where
  "returnE x s = (Inr x, s)"

definition raiseE :: "error \<Rightarrow> ('a, 'w) run" where
  "raiseE e s = (Inl e, s)"

text \<open>Sequencing: an exception of the first statement skips the rest.\<close>

definition bindE :: "('a, 'w) run \<Rightarrow> ('a \<Rightarrow> ('b, 'w) run) \<Rightarrow> ('b, 'w) run" where
  "bindE m f s = (case m s of (Inl e, s') \<Rightarrow> (Inl e, s') | (Inr x, s') \<Rightarrow> f x s')"

text \<open>Calling a collaborator: the call is logged, then it runs on the world.\<close>

definition call :: "event \<Rightarrow> ('a, 'w) collaborator \<Rightarrow> ('a, 'w) run" where
  "call ev c s = (case s of (log, w) \<Rightarrow> (case c w of (r, w') \<Rightarrow> (r, log @ [ev], w')))"

text \<open>\<open>d[k]\<close>\<close>

definition getitem :: "(string \<rightharpoonup> 'v) \<Rightarrow> string \<Rightarrow> ('v, 'w) run" where
  "getitem d k = (case d k of None \<Rightarrow> raiseE (KeyError k) | Some v \<Rightarrow> returnE v)"

subsection \<open>The blocking and the suspending pipeline\<close>

definition request_kwargs :: "string \<Rightarrow> string \<Rightarrow> kwargs" where
  "request_kwargs question docs = [''question'' \<mapsto> question, ''api_docs'' \<mapsto> docs]"

definition answer_kwargs :: "string \<Rightarrow> string \<Rightarrow> string \<Rightarrow> string \<Rightarrow> kwargs" where
  "answer_kwargs question docs api_url api_response =
     [''question'' \<mapsto> question, ''api_docs'' \<mapsto> docs,
      ''api_url'' \<mapsto> api_url, ''api_response'' \<mapsto> api_response]"

definition notify :: "'w APIChain \<Rightarrow> string \<Rightarrow> string \<Rightarrow> (unit, 'w) run" where
  "notify self text color =
     call (OnText text color [CHR 0x0A] (verbose self))
          (on_text (callback_manager self) text color [CHR 0x0A] (verbose self))"

text \<open>
  \<open>APIChain._call\<close>. Each statement of the method is one line here; the name
  \<open>api_response\<close> is bound again by the parser's result, as in the source. The
  parser is called when the field holds an object that tests true.
\<close>

definition APIChain_call :: "'w APIChain \<Rightarrow> (string \<rightharpoonup> string) \<Rightarrow> (string \<rightharpoonup> string, 'w) run" where
  "APIChain_call self inputs =
     bindE (getitem inputs (question_key self)) (\<lambda>question.
     bindE (call (RequestPredict (request_kwargs question (api_docs self)))
                 (predict (api_request_chain self) (request_kwargs question (api_docs self))))
       (\<lambda>api_url.
     bindE (notify self api_url ''green'') (\<lambda>_.
     bindE (call (Get api_url) (get (requests_wrapper self) api_url)) (\<lambda>api_response.
     bindE (notify self api_response ''yellow'') (\<lambda>_.
     bindE (case api_request_output_parser self of
              None \<Rightarrow> returnE api_response
            | Some parser \<Rightarrow>
                if truthy parser
                then call (OutputParser api_response) (apply_parser parser api_response)
                else returnE api_response)
       (\<lambda>api_response.
     bindE (call (AnswerPredict (answer_kwargs question (api_docs self) api_url api_response))
                 (predict (api_answer_chain self)
                    (answer_kwargs question (api_docs self) api_url api_response)))
       (\<lambda>answer.
     returnE [output_key self \<mapsto> answer])))))))"


subsection \<open>What a log shows\<close>

definition log_of :: "(error + 'a) \<times> 'w state \<Rightarrow> event list" where
  "log_of r = fst (snd r)"

text \<open>The URLs fetched, the texts the callback manager was shown, the texts given to
  the output parser and the keyword arguments of the answer chain, each in call order.\<close>

fun fetch_calls :: "event list \<Rightarrow> string list" where
  "fetch_calls [] = []"
| "fetch_calls (Get u # evs) = u # fetch_calls evs"
| "fetch_calls (_ # evs) = fetch_calls evs"

fun on_text_calls :: "event list \<Rightarrow> string list" where
  "on_text_calls [] = []"
| "on_text_calls (OnText t _ _ _ # evs) = t # on_text_calls evs"
| "on_text_calls (_ # evs) = on_text_calls evs"

fun parser_calls :: "event list \<Rightarrow> string list" where
  "parser_calls [] = []"
| "parser_calls (OutputParser t # evs) = t # parser_calls evs"
| "parser_calls (_ # evs) = parser_calls evs"

fun answer_calls :: "event list \<Rightarrow> kwargs list" where
  "answer_calls [] = []"
| "answer_calls (AnswerPredict kw # evs) = kw # answer_calls evs"
| "answer_calls (_ # evs) = answer_calls evs"

subsection \<open>Stubs\<close>

text \<open>
  A stub is a collaborator that computes its answer from its argument alone and leaves
  the world as it is. More generally, a collaborator is deterministic when what it
  returns does not depend on the world; a run does not depend on the state when its
  result is the same from every log and world.
\<close>

definition stub :: "('a \<Rightarrow> error + 'b) \<Rightarrow> 'a \<Rightarrow> ('b, 'w) collaborator" where
  "stub f x w = (f x, w)"

definition deterministic :: "('a, 'w) collaborator \<Rightarrow> bool" where
  "deterministic c \<longleftrightarrow> (\<forall>w w'. fst (c w) = fst (c w'))"

definition deterministic_collaborators :: "'w APIChain \<Rightarrow> bool" where
  "deterministic_collaborators self \<longleftrightarrow>
     (\<forall>kw. deterministic (predict (api_request_chain self) kw)) \<and>
     (\<forall>kw. deterministic (predict (api_answer_chain self) kw)) \<and>
     (\<forall>u. deterministic (get (requests_wrapper self) u)) \<and>
     (\<forall>t c e v. deterministic (on_text (callback_manager self) t c e v)) \<and>
     (\<forall>p t. api_request_output_parser self = Some p \<longrightarrow> deterministic (apply_parser p t))"

definition state_independent :: "('a, 'w) run \<Rightarrow> bool" where
  "state_independent m \<longleftrightarrow> (\<forall>s s'. fst (m s) = fst (m s'))"

definition stub_chain :: "string list \<Rightarrow> (kwargs \<Rightarrow> error + string) \<Rightarrow> 'w LLMChain" where
  "stub_chain vars f =
     \<lparr>prompt = \<lparr>input_variables = vars\<rparr>, predict = stub f, apredict = stub f\<rparr>"

definition silent_callbacks :: "'w BaseCallbackManager" where
  "silent_callbacks = \<lparr>on_text = (\<lambda>text color end verbose. stub (\<lambda>_. Inr ()) ())\<rparr>"

text \<open>The answer stub of the weather scenario gives back what it was given as
  \<open>api_response\<close>.\<close>

definition echo_api_response :: "kwargs \<Rightarrow> error + string" where
  "echo_api_response kw =
     (case kw ''api_response'' of None \<Rightarrow> Inl (KeyError ''api_response'') | Some v \<Rightarrow> Inr v)"

text \<open>A parser object over a stub, with the truth value given.\<close>

definition stub_parser :: "bool \<Rightarrow> (string \<Rightarrow> error + string) \<Rightarrow> 'w OutputParser" where
  "stub_parser t f = \<lparr>truthy = t, apply_parser = stub f\<rparr>"

text \<open>A chain over stubs: the request stub, the fetcher, the value of the parser
  field; the answer chain echoes, the callback manager is silent, the keys are the
  defaults.\<close>

definition stub_api_chain ::
  "(kwargs \<Rightarrow> error + string) \<Rightarrow> (string \<Rightarrow> error + string) \<Rightarrow>
   'w OutputParser option \<Rightarrow> 'w APIChain" where
  "stub_api_chain request fetch parser =
     \<lparr>api_request_chain = stub_chain [''question'', ''api_docs''] request,
      api_answer_chain =
        stub_chain [''question'', ''api_docs'', ''api_url'', ''api_response'']
          echo_api_response,
      requests_wrapper = \<lparr>get = stub fetch, aget = stub fetch\<rparr>,
      api_docs = ''GET /paris returns the weather'',
      question_key = ''question'',
      output_key = ''output'',
      api_request_output_parser = parser,
      callback_manager = silent_callbacks,
      verbose = False\<rparr>"

definition weather_inputs :: "string \<rightharpoonup> string" where
  "weather_inputs = [''question'' \<mapsto> ''What is the weather in Paris?'']"

definition weather_chain :: "'w OutputParser option \<Rightarrow> 'w APIChain" where
  \<open>weather_chain parser =
     stub_api_chain (\<lambda>_. Inr ''https://api.weather/paris'') (\<lambda>_. Inr ''{"temp_c": 18}'')
       parser\<close>

text \<open>Two fetchers that keep the number of fetches in the world. The first answers
  with the same text whatever the count; the second answers with the count, so it is
  not deterministic.\<close>

definition counted_get :: "string \<Rightarrow> (string, nat) collaborator" where
  \<open>counted_get u n = (Inr ''{"temp_c": 18}'', Suc n)\<close>

definition counting_get :: "string \<Rightarrow> (string, nat) collaborator" where
  "counting_get u n = (Inr (replicate n CHR ''x''), Suc n)"

definition with_get ::
  "(string \<Rightarrow> (string, 'w) collaborator) \<Rightarrow> 'w APIChain \<Rightarrow> 'w APIChain" where
  "with_get g self = self\<lparr>requests_wrapper := (requests_wrapper self)\<lparr>get := g\<rparr>\<rparr>"

text \<open>An upper-casing normalizer on ASCII letters.\<close>

definition upper_char :: "char \<Rightarrow> char" where
  "upper_char c =
     (if 97 \<le> (of_char c :: nat) \<and> (of_char c :: nat) \<le> 122
      then char_of ((of_char c :: nat) - 32) else c)"

definition to_upper_case :: "string \<Rightarrow> error + string" where
  "to_upper_case s = Inr (map upper_char s)"

text \<open>The upper-casing parser as an object that tests true, and as one that tests
  false.\<close>

definition upper_parser :: "'w OutputParser" where
  "upper_parser = stub_parser True to_upper_case"

definition falsy_upper_parser :: "'w OutputParser" where
  "falsy_upper_parser = stub_parser False to_upper_case"

text \<open>Raw constructor arguments with the two chains given by their prompt variables.\<close>

definition chains_given :: "string list \<Rightarrow> string list \<Rightarrow> 'w raw_values" where
  "chains_given request_vars answer_vars =
     [''api_request_chain'' \<mapsto> LLMChainObj (stub_chain request_vars (\<lambda>_. Inr [])),
      ''api_answer_chain'' \<mapsto> LLMChainObj (stub_chain answer_vars (\<lambda>_. Inr []))]"


section \<open>Construction\<close>

lemma chain_input_variables_chain:
  "values k = Some (LLMChainObj c) \<Longrightarrow>
   chain_input_variables values k = Inr (input_variables (prompt c))"
  by (simp add: chain_input_variables_def)

lemma question_alone_mismatch: "set [''question''] \<noteq> {''question'', ''api_docs''}"
  by simp

lemma extra_foo_mismatch:
  "set [''question'', ''api_docs'', ''foo''] \<noteq> {''question'', ''api_docs''}"
proof
  assume "set [''question'', ''api_docs'', ''foo''] = {''question'', ''api_docs''}"
  moreover have "''foo'' \<in> set [''question'', ''api_docs'', ''foo'']"
    by simp
  ultimately have "''foo'' \<in> {''question'', ''api_docs''}"
    by (rule subst)
  then show False by simp
qed

lemma chains_given_request:
  "chains_given rv av ''api_request_chain'' = Some (LLMChainObj (stub_chain rv (\<lambda>_. Inr [])))"
  by (simp add: chains_given_def)


lemma stub_chain_vars: "input_variables (prompt (stub_chain vars f)) = vars"
  by (simp add: stub_chain_def)

text \<open>
  C1. A construction whose request chain has a prompt with a variable set other than
  \<open>{question, api_docs}\<close> fails: the first validator raises the \<open>ValueError\<close>, and
  since it runs first, that is the error of the construction.
\<close>

theorem request_prompt_mismatch_fails:
  assumes "values ''api_request_chain'' = Some (LLMChainObj c)"
    and "set (input_variables (prompt c)) \<noteq> {''question'', ''api_docs''}"
  shows "validate_api_request_prompt values
           = Inl (ValueError {''question'', ''api_docs''} (input_variables (prompt c)))
       \<and> pre_root_validators values
           = Inl (ValueError {''question'', ''api_docs''} (input_variables (prompt c)))"
proof -
  have "validate_api_request_prompt values
          = Inl (ValueError {''question'', ''api_docs''} (input_variables (prompt c)))"
    using assms by (simp add: validate_api_request_prompt_def chain_input_variables_chain)
  then show ?thesis
    by (simp add: pre_root_validators_def)
qed

text \<open>The same at the two prompts the specification names: \<open>question\<close> alone, and
  an extra \<open>foo\<close>.\<close>

theorem request_prompt_mismatch_fails_witness:
  "pre_root_validators
     (chains_given [''question''] [''question'', ''api_docs'', ''api_url'', ''api_response'']
        :: unit raw_values)
     = Inl (ValueError {''question'', ''api_docs''} [''question''])
   \<and> pre_root_validators
     (chains_given [''question'', ''api_docs'', ''foo'']
        [''question'', ''api_docs'', ''api_url'', ''api_response''] :: unit raw_values)
     = Inl (ValueError {''question'', ''api_docs''} [''question'', ''api_docs'', ''foo''])"
  using
    request_prompt_mismatch_fails
      [of "chains_given [''question'']
             [''question'', ''api_docs'', ''api_url'', ''api_response''] :: unit raw_values"
          "stub_chain [''question''] (\<lambda>_. Inr [])"]
    request_prompt_mismatch_fails
      [of "chains_given [''question'', ''api_docs'', ''foo'']
             [''question'', ''api_docs'', ''api_url'', ''api_response''] :: unit raw_values"
          "stub_chain [''question'', ''api_docs'', ''foo''] (\<lambda>_. Inr [])"]
    question_alone_mismatch extra_foo_mismatch
  by (simp add: stub_chain_vars chains_given_request)





section \<open>Runs of the pipeline\<close>

text \<open>One statement of the pipeline at a time.\<close>

lemma bindE_getitem:
  "bindE (getitem d k) f s = (case d k of None \<Rightarrow> (Inl (KeyError k), s) | Some v \<Rightarrow> f v s)"
  by (simp add: bindE_def getitem_def returnE_def raiseE_def split: option.splits)

lemma bindE_call:
  "bindE (call ev c) f (log, w) =
     (case fst (c w) of
        Inl e \<Rightarrow> (Inl e, log @ [ev], snd (c w))
      | Inr x \<Rightarrow> f x (log @ [ev], snd (c w)))"
  by (cases "c w") (simp add: bindE_def call_def split: sum.splits)

lemma bindE_notify:
  "bindE (notify self t color) f (log, w) =
     (case fst (on_text (callback_manager self) t color [CHR 0x0A] (verbose self) w) of
        Inl e \<Rightarrow> (Inl e, log @ [OnText t color [CHR 0x0A] (verbose self)],
                  snd (on_text (callback_manager self) t color [CHR 0x0A] (verbose self) w))
      | Inr x \<Rightarrow> f x (log @ [OnText t color [CHR 0x0A] (verbose self)],
                  snd (on_text (callback_manager self) t color [CHR 0x0A] (verbose self) w)))"
  by (simp add: notify_def bindE_call)

lemma bindE_returnE: "bindE (returnE x) f s = f x s"
  by (simp add: bindE_def returnE_def)

lemmas run_simps = bindE_getitem bindE_call bindE_notify bindE_returnE

lemma answer_kwargs_api_response:
  "answer_kwargs question docs api_url api_response ''api_response'' = Some api_response"
  by (simp add: answer_kwargs_def)


text \<open>The stub chains, field by field.\<close>

lemma to_upper_json: \<open>to_upper_case ''{"temp_c": 18}'' = Inr ''{"TEMP_C": 18}''\<close>
  by code_simp

lemmas stub_chain_simps =
  stub_api_chain_def stub_chain_def silent_callbacks_def stub_def weather_chain_def
  weather_inputs_def

lemma weather_question_key: "question_key (weather_chain parser) = ''question''"
  by (simp add: stub_chain_simps)

lemma weather_inputs_question:
  "weather_inputs ''question'' = Some ''What is the weather in Paris?''"
  by (simp add: weather_inputs_def)

lemma weather_predict:
  "predict (api_request_chain (weather_chain parser)) kw w = (Inr ''https://api.weather/paris'', w)"
  by (simp add: stub_chain_simps)

lemma weather_apredict:
  "apredict (api_request_chain (weather_chain parser)) kw w
     = (Inr ''https://api.weather/paris'', w)"
  by (simp add: stub_chain_simps)

lemma weather_on_text:
  "on_text (callback_manager (weather_chain parser)) t c e v w = (Inr (), w)"
  by (simp add: stub_chain_simps)

lemma weather_get:
  \<open>get (requests_wrapper (weather_chain parser)) u w = (Inr ''{"temp_c": 18}'', w)\<close>
  by (simp add: stub_chain_simps)

lemma weather_aget:
  \<open>aget (requests_wrapper (weather_chain parser)) u w = (Inr ''{"temp_c": 18}'', w)\<close>
  by (simp add: stub_chain_simps)

lemma weather_parser: "api_request_output_parser (weather_chain parser) = parser"
  by (simp add: stub_chain_simps)

lemma upper_parser_truthy: "truthy upper_parser"
  by (simp add: upper_parser_def stub_parser_def)

lemma falsy_upper_parser_truthy: "\<not> truthy falsy_upper_parser"
  by (simp add: falsy_upper_parser_def stub_parser_def)

lemma upper_parser_json:
  \<open>apply_parser upper_parser ''{"temp_c": 18}'' w = (Inr ''{"TEMP_C": 18}'', w)\<close>
  by (simp add: upper_parser_def stub_parser_def stub_def to_upper_json)

lemma falsy_upper_parser_json:
  \<open>apply_parser falsy_upper_parser ''{"temp_c": 18}'' w = (Inr ''{"TEMP_C": 18}'', w)\<close>
  by (simp add: falsy_upper_parser_def stub_parser_def stub_def to_upper_json)

lemma upper_json_changed: \<open>''{"TEMP_C": 18}'' \<noteq> ''{"temp_c": 18}''\<close>
  by simp

lemma weather_answer:
  "predict (api_answer_chain (weather_chain parser)) kw w = (echo_api_response kw, w)"
  by (simp add: stub_chain_simps)

lemma weather_output_key: "output_key (weather_chain parser) = ''output''"
  by (simp add: stub_chain_simps)

lemma weather_verbose: "verbose (weather_chain parser) = False"
  by (simp add: stub_chain_simps)

lemma weather_api_docs: "api_docs (weather_chain parser) = ''GET /paris returns the weather''"
  by (simp add: stub_chain_simps)

lemmas weather_simps =
  weather_question_key weather_inputs_question weather_predict weather_apredict
  weather_on_text weather_get weather_aget weather_parser weather_answer weather_output_key
  weather_verbose weather_api_docs

text \<open>
  C3. The fetcher is called with the text the request chain returned, as it is. In a
  run in which the request chain returns \<open>api_url\<close>, the URLs fetched are \<open>api_url\<close>
  alone when the callback manager accepts the URL, and none when it raises. The run
  knows the fetcher at \<open>api_url\<close> only: it is the run of the chain whose fetcher
  fetches \<open>api_url\<close> whatever it is asked for. And the fetch at \<open>api_url\<close> is the one
  that counts: its exception ends the run, and the text it returns is the one shown
  to the callback manager next.
\<close>

theorem fetcher_gets_predicted_url:
  assumes "inputs (question_key self) = Some question"
    and "predict (api_request_chain self) (request_kwargs question (api_docs self)) w0
           = (Inr api_url, w1)"
  shows "fetch_calls (log_of (APIChain_call self inputs ([], w0)))
           = (if fst (on_text (callback_manager self) api_url ''green'' [CHR 0x0A]
                        (verbose self) w1) = Inr ()
              then [api_url] else [])
       \<and> APIChain_call (with_get (\<lambda>_. get (requests_wrapper self) api_url) self) inputs ([], w0)
           = APIChain_call self inputs ([], w0)
       \<and> (\<forall>w2 e w3.
             on_text (callback_manager self) api_url ''green'' [CHR 0x0A] (verbose self) w1
               = (Inr (), w2)
             \<and> get (requests_wrapper self) api_url w2 = (Inl e, w3) \<longrightarrow>
             APIChain_call self inputs ([], w0)
               = (Inl e,
                  [RequestPredict (request_kwargs question (api_docs self)),
                   OnText api_url ''green'' [CHR 0x0A] (verbose self),
                   Get api_url],
                  w3))
       \<and> (\<forall>w2 raw w3 e w4.
             on_text (callback_manager self) api_url ''green'' [CHR 0x0A] (verbose self) w1
               = (Inr (), w2)
             \<and> get (requests_wrapper self) api_url w2 = (Inr raw, w3)
             \<and> on_text (callback_manager self) raw ''yellow'' [CHR 0x0A] (verbose self) w3
               = (Inl e, w4) \<longrightarrow>
             APIChain_call self inputs ([], w0)
               = (Inl e,
                  [RequestPredict (request_kwargs question (api_docs self)),
                   OnText api_url ''green'' [CHR 0x0A] (verbose self),
                   Get api_url,
                   OnText raw ''yellow'' [CHR 0x0A] (verbose self)],
                  w4))"
proof -
  have labels: "fetch_calls (log_of (APIChain_call self inputs ([], w0)))
           = (if fst (on_text (callback_manager self) api_url ''green'' [CHR 0x0A]
                        (verbose self) w1) = Inr ()
              then [api_url] else [])"
    using assms
    by (simp add: APIChain_call_def run_simps log_of_def returnE_def
        split: sum.splits option.splits)
  have only_there:
    "APIChain_call (with_get (\<lambda>_. get (requests_wrapper self) api_url) self) inputs ([], w0)
       = APIChain_call self inputs ([], w0)"
    using assms by (simp add: APIChain_call_def run_simps with_get_def notify_def)
  have raises: "APIChain_call self inputs ([], w0)
               = (Inl e,
                  [RequestPredict (request_kwargs question (api_docs self)),
                   OnText api_url ''green'' [CHR 0x0A] (verbose self),
                   Get api_url],
                  w3)"
    if "on_text (callback_manager self) api_url ''green'' [CHR 0x0A] (verbose self) w1
               = (Inr (), w2)"
      and "get (requests_wrapper self) api_url w2 = (Inl e, w3)" for w2 e w3
    using assms that by (simp add: APIChain_call_def run_simps)
  have returns: "APIChain_call self inputs ([], w0)
               = (Inl e,
                  [RequestPredict (request_kwargs question (api_docs self)),
                   OnText api_url ''green'' [CHR 0x0A] (verbose self),
                   Get api_url,
                   OnText raw ''yellow'' [CHR 0x0A] (verbose self)],
                  w4)"
    if "on_text (callback_manager self) api_url ''green'' [CHR 0x0A] (verbose self) w1
               = (Inr (), w2)"
      and "get (requests_wrapper self) api_url w2 = (Inr raw, w3)"
      and "on_text (callback_manager self) raw ''yellow'' [CHR 0x0A] (verbose self) w3
               = (Inl e, w4)" for w2 raw w3 e w4
    using assms that by (simp add: APIChain_call_def run_simps)
  from labels only_there raises returns show ?thesis by blast
qed

theorem fetcher_gets_predicted_url_witness:
  "fetch_calls (log_of (APIChain_call
      (stub_api_chain (\<lambda>_. Inr ''http://x/y?z=1'') (\<lambda>_. Inr ''body'') None)
      weather_inputs ([], ())))
   = [''http://x/y?z=1'']"
proof -
  let ?self = "stub_api_chain (\<lambda>_. Inr ''http://x/y?z=1'') (\<lambda>_. Inr ''body'') None
                 :: unit APIChain"
  have q: "weather_inputs (question_key ?self) = Some ''What is the weather in Paris?''"
    by (simp add: stub_chain_simps)
  have p: "predict (api_request_chain ?self)
             (request_kwargs ''What is the weather in Paris?'' (api_docs ?self)) ()
           = (Inr ''http://x/y?z=1'', ())"
    by (simp add: stub_chain_simps)
  have n: "fst (on_text (callback_manager ?self) ''http://x/y?z=1'' ''green'' [CHR 0x0A]
             (verbose ?self) ()) = Inr ()"
    by (simp add: stub_chain_simps)
  from fetcher_gets_predicted_url
         [of weather_inputs ?self "''What is the weather in Paris?''" "()"
             "''http://x/y?z=1''" "()", OF q p]
  have "fetch_calls (log_of (APIChain_call ?self weather_inputs ([], ())))
          = (if fst (on_text (callback_manager ?self) ''http://x/y?z=1'' ''green'' [CHR 0x0A]
                        (verbose ?self) ()) = Inr ()
             then [''http://x/y?z=1''] else [])"
    by (rule conjunct1)
  with n show ?thesis by simp
qed

text \<open>
  C4. When the fetch raises, the run ends with that exception in place of an output
  mapping, and its log ends with the fetch: the answer chain is not called.
\<close>

theorem fetch_failure_aborts:
  assumes "inputs (question_key self) = Some question"
    and "predict (api_request_chain self) (request_kwargs question (api_docs self)) w0
           = (Inr api_url, w1)"
    and "on_text (callback_manager self) api_url ''green'' [CHR 0x0A] (verbose self) w1
           = (Inr (), w2)"
    and "get (requests_wrapper self) api_url w2 = (Inl e, w3)"
  shows "APIChain_call self inputs ([], w0)
           = (Inl e,
              [RequestPredict (request_kwargs question (api_docs self)),
               OnText api_url ''green'' [CHR 0x0A] (verbose self),
               Get api_url],
              w3)
       \<and> answer_calls (log_of (APIChain_call self inputs ([], w0))) = []"
proof -
  have "APIChain_call self inputs ([], w0)
           = (Inl e,
              [RequestPredict (request_kwargs question (api_docs self)),
               OnText api_url ''green'' [CHR 0x0A] (verbose self),
               Get api_url],
              w3)"
    using assms by (simp add: APIChain_call_def run_simps)
  then show ?thesis by (simp add: log_of_def)
qed

theorem fetch_failure_aborts_witness:
  "APIChain_call (stub_api_chain (\<lambda>_. Inr ''http://x/y?z=1'') (\<lambda>_. Inl (Raised ''FetchError''))
                   None)
     weather_inputs ([], ())
   = (Inl (Raised ''FetchError''),
      [RequestPredict (request_kwargs ''What is the weather in Paris?''
                         ''GET /paris returns the weather''),
       OnText ''http://x/y?z=1'' ''green'' [CHR 0x0A] False,
       Get ''http://x/y?z=1''],
      ())"
proof -
  let ?self = "stub_api_chain (\<lambda>_. Inr ''http://x/y?z=1'') (\<lambda>_. Inl (Raised ''FetchError''))
                 None :: unit APIChain"
  have q: "weather_inputs (question_key ?self) = Some ''What is the weather in Paris?''"
    by (simp add: stub_chain_simps)
  have p: "predict (api_request_chain ?self)
             (request_kwargs ''What is the weather in Paris?'' (api_docs ?self)) ()
           = (Inr ''http://x/y?z=1'', ())"
    by (simp add: stub_chain_simps)
  have n: "on_text (callback_manager ?self) ''http://x/y?z=1'' ''green'' [CHR 0x0A]
             (verbose ?self) () = (Inr (), ())"
    by (simp add: stub_chain_simps)
  have g: "get (requests_wrapper ?self) ''http://x/y?z=1'' () = (Inl (Raised ''FetchError''), ())"
    by (simp add: stub_chain_simps)
  show ?thesis
    using fetch_failure_aborts
            [of weather_inputs ?self "''What is the weather in Paris?''" "()"
                "''http://x/y?z=1''" "()" "()" "Raised ''FetchError''" "()"] q p n g
    by (simp add: stub_chain_simps)
qed

text \<open>
  C5. With an output parser configured that tests true, the blocking run calls the
  answer chain once, and \<open>api_response\<close> is bound to what the parser returned for the
  fetched text; the output mapping holds the answer to those arguments, and the run
  ends in the world that call leaves.
\<close>

theorem parser_output_reaches_answer_chain:
  assumes "inputs (question_key self) = Some question"
    and "predict (api_request_chain self) (request_kwargs question (api_docs self)) w0
           = (Inr api_url, w1)"
    and "on_text (callback_manager self) api_url ''green'' [CHR 0x0A] (verbose self) w1
           = (Inr (), w2)"
    and "get (requests_wrapper self) api_url w2 = (Inr raw, w3)"
    and "on_text (callback_manager self) raw ''yellow'' [CHR 0x0A] (verbose self) w3
           = (Inr (), w4)"
    and "api_request_output_parser self = Some parser"
    and "truthy parser"
    and "apply_parser parser raw w4 = (Inr normalized, w5)"
  shows "answer_calls (log_of (APIChain_call self inputs ([], w0)))
           = [answer_kwargs question (api_docs self) api_url normalized]
       \<and> answer_kwargs question (api_docs self) api_url normalized ''api_response''
           = Some normalized
       \<and> fst (APIChain_call self inputs ([], w0))
           = map_sum id (\<lambda>answer. [output_key self \<mapsto> answer])
               (fst (predict (api_answer_chain self)
                       (answer_kwargs question (api_docs self) api_url normalized) w5))
       \<and> snd (APIChain_call self inputs ([], w0))
           = ([RequestPredict (request_kwargs question (api_docs self)),
               OnText api_url ''green'' [CHR 0x0A] (verbose self),
               Get api_url,
               OnText raw ''yellow'' [CHR 0x0A] (verbose self),
               OutputParser raw,
               AnswerPredict (answer_kwargs question (api_docs self) api_url normalized)],
              snd (predict (api_answer_chain self)
                     (answer_kwargs question (api_docs self) api_url normalized) w5))"
  using assms
  by (simp add: APIChain_call_def run_simps log_of_def returnE_def answer_kwargs_api_response
      split: sum.splits)

theorem parser_output_reaches_answer_chain_witness:
  \<open>answer_calls (log_of (APIChain_call (weather_chain (Some upper_parser)) weather_inputs
       ([], ())))
     = [answer_kwargs ''What is the weather in Paris?'' ''GET /paris returns the weather''
          ''https://api.weather/paris'' ''{"TEMP_C": 18}'']
   \<and> fst (APIChain_call (weather_chain (Some upper_parser)) weather_inputs ([], ()))
     = Inr [''output'' \<mapsto> ''{"TEMP_C": 18}'']\<close>
  using parser_output_reaches_answer_chain
          [of weather_inputs "weather_chain (Some upper_parser)"
              "''What is the weather in Paris?''" "()" "''https://api.weather/paris''"
              "()" "()" \<open>''{"temp_c": 18}''\<close> "()" "()" upper_parser
              \<open>''{"TEMP_C": 18}''\<close> "()"]
  by (simp add: weather_simps upper_parser_truthy upper_parser_json echo_api_response_def
      answer_kwargs_api_response)

text \<open>
  A configured parser that tests false is skipped: the answer chain is given the
  fetched text, not what the parser makes of it, and the output holds the fetched
  text.
\<close>

theorem falsy_parser_is_skipped:
  \<open>api_request_output_parser (weather_chain (Some falsy_upper_parser) :: unit APIChain)
     = Some falsy_upper_parser
   \<and> apply_parser falsy_upper_parser ''{"temp_c": 18}'' () = (Inr ''{"TEMP_C": 18}'', ())
   \<and> APIChain_call (weather_chain (Some falsy_upper_parser)) weather_inputs ([], ())
     = (Inr [''output'' \<mapsto> ''{"temp_c": 18}''],
        [RequestPredict (request_kwargs ''What is the weather in Paris?''
                           ''GET /paris returns the weather''),
         OnText ''https://api.weather/paris'' ''green'' [CHR 0x0A] False,
         Get ''https://api.weather/paris'',
         OnText ''{"temp_c": 18}'' ''yellow'' [CHR 0x0A] False,
         AnswerPredict (answer_kwargs ''What is the weather in Paris?''
                          ''GET /paris returns the weather'' ''https://api.weather/paris''
                          ''{"temp_c": 18}'')],
        ())\<close>
  by (simp add: APIChain_call_def run_simps returnE_def weather_simps
      falsy_upper_parser_truthy falsy_upper_parser_json echo_api_response_def
      answer_kwargs_api_response)




text \<open>
  C7. The weather scenario: the request stub returns the URL, the fetch stub returns
  the JSON text, the answer stub echoes its \<open>api_response\<close>, no parser is configured
  and the callback manager does not raise. The output mapping then holds the JSON
  text under the output key.
\<close>

theorem weather_scenario:
  assumes "inputs (question_key self) = Some ''What is the weather in Paris?''"
    and "predict (api_request_chain self) = stub (\<lambda>_. Inr ''https://api.weather/paris'')"
    and \<open>get (requests_wrapper self) = stub (\<lambda>_. Inr ''{"temp_c": 18}'')\<close>
    and "predict (api_answer_chain self) = stub echo_api_response"
    and "api_request_output_parser self = None"
    and "\<forall>t c e v w. fst (on_text (callback_manager self) t c e v w) = Inr ()"
  shows \<open>fst (APIChain_call self inputs (log, w)) = Inr [output_key self \<mapsto> ''{"temp_c": 18}'']\<close>
  using assms
  by (simp add: APIChain_call_def run_simps returnE_def stub_def echo_api_response_def
      answer_kwargs_def)

theorem weather_scenario_witness:
  \<open>fst (APIChain_call (weather_chain None) weather_inputs ([], ()))
     = Inr [''output'' \<mapsto> ''{"temp_c": 18}'']\<close>
proof -
  have p: "predict (api_request_chain (weather_chain None :: unit APIChain))
             = stub (\<lambda>_. Inr ''https://api.weather/paris'')"
    by (simp add: stub_api_chain_def stub_chain_def weather_chain_def)
  have g: \<open>get (requests_wrapper (weather_chain None :: unit APIChain))
             = stub (\<lambda>_. Inr ''{"temp_c": 18}'')\<close>
    by (simp add: stub_api_chain_def stub_chain_def weather_chain_def)
  have a: "predict (api_answer_chain (weather_chain None :: unit APIChain))
             = stub echo_api_response"
    by (simp add: stub_api_chain_def stub_chain_def weather_chain_def)
  have n: "api_request_output_parser (weather_chain None :: unit APIChain) = None"
    by (simp add: stub_api_chain_def weather_chain_def)
  show ?thesis
    using weather_scenario [of weather_inputs "weather_chain None" "[]" "()"] p g a n
    by (simp add: weather_simps)
qed

section \<open>Determinism\<close>

lemma state_independent_returnE: "state_independent (returnE x)"
  by (simp add: state_independent_def returnE_def)

lemma state_independent_getitem: "state_independent (getitem d k)"
  by (simp add: state_independent_def getitem_def returnE_def raiseE_def split: option.splits)

lemma state_independent_call: "deterministic c \<Longrightarrow> state_independent (call ev c)"
proof -
  assume d: "deterministic c"
  have "fst (call ev c (l, w)) = fst (c w)" for l w
    by (cases "c w") (simp add: call_def)
  moreover have "fst (c w) = fst (c w')" for w w'
    using d by (simp add: deterministic_def)
  ultimately show ?thesis
    unfolding state_independent_def by (metis prod.collapse)
qed

lemma fst_bindE:
  "fst (bindE m f s) = (case fst (m s) of Inl e \<Rightarrow> Inl e | Inr x \<Rightarrow> fst (f x (snd (m s))))"
  by (cases "m s") (simp add: bindE_def split: sum.splits)

lemma state_independent_bindE:
  assumes "state_independent m" and "\<And>x. state_independent (f x)"
  shows "state_independent (bindE m f)"
proof -
  have "fst (bindE m f s) = fst (bindE m f s')" for s s'
  proof -
    have "fst (m s) = fst (m s')"
      using assms(1) unfolding state_independent_def by blast
    moreover have "fst (f x (snd (m s))) = fst (f x (snd (m s')))" for x
      using assms(2) [of x] unfolding state_independent_def by blast
    ultimately show ?thesis
      by (simp add: fst_bindE split: sum.splits)
  qed
  then show ?thesis unfolding state_independent_def by blast
qed

lemma state_independent_notify:
  "deterministic_collaborators self \<Longrightarrow> state_independent (notify self t color)"
  unfolding notify_def
  by (rule state_independent_call) (simp add: deterministic_collaborators_def)

lemma state_independent_APIChain_call:
  assumes "deterministic_collaborators self"
  shows "state_independent (APIChain_call self inputs)"
  unfolding APIChain_call_def
proof (intro state_independent_bindE state_independent_returnE state_independent_getitem
    state_independent_notify [OF assms] state_independent_call)
  fix question
  show "deterministic (predict (api_request_chain self) (request_kwargs question (api_docs self)))"
    using assms by (simp add: deterministic_collaborators_def)
next
  fix api_url
  show "deterministic (get (requests_wrapper self) api_url)"
    using assms by (simp add: deterministic_collaborators_def)
next
  fix api_response
  show "state_independent
          (case api_request_output_parser self of
             None \<Rightarrow> returnE api_response
           | Some parser \<Rightarrow>
               if truthy parser
               then call (OutputParser api_response) (apply_parser parser api_response)
               else returnE api_response)"
    using assms
    by (auto simp: deterministic_collaborators_def split: option.splits
        intro: state_independent_returnE state_independent_call)
next
  fix question api_url api_response
  show "deterministic (predict (api_answer_chain self)
          (answer_kwargs question (api_docs self) api_url api_response))"
    using assms by (simp add: deterministic_collaborators_def)
qed

lemma counted_chain_deterministic:
  "deterministic_collaborators (with_get counted_get (weather_chain (Some upper_parser)))"
  by (auto simp: deterministic_collaborators_def stub_chain_simps deterministic_def
      with_get_def counted_get_def upper_parser_def stub_parser_def)

text \<open>
  C8. With collaborators whose answers do not depend on the world, the result of a
  run is the same from every state; so a second run on the same inputs, started where
  the first ended, gives the result of the first.
\<close>

theorem same_question_same_output:
  assumes "deterministic_collaborators self"
  shows "fst (APIChain_call self inputs s) = fst (APIChain_call self inputs s')
       \<and> fst (APIChain_call self inputs (snd (APIChain_call self inputs s)))
           = fst (APIChain_call self inputs s)"
  using state_independent_APIChain_call [OF assms, of inputs]
  unfolding state_independent_def by blast

theorem same_question_same_output_witness:
  "fst (APIChain_call (with_get counted_get (weather_chain (Some upper_parser))) weather_inputs
          (snd (APIChain_call (with_get counted_get (weather_chain (Some upper_parser)))
                  weather_inputs ([], 0))))
     = fst (APIChain_call (with_get counted_get (weather_chain (Some upper_parser)))
              weather_inputs ([], 0))"
  using same_question_same_output
          [of "with_get counted_get (weather_chain (Some upper_parser))" weather_inputs
              "([], 0)" "([], 0)"]
        counted_chain_deterministic
  by simp

text \<open>The hypothesis is needed: with the fetcher that answers with its count, the
  second run gives another output than the first.\<close>

lemma counting_get_changes_output:
  "fst (APIChain_call (with_get counting_get (weather_chain None)) weather_inputs ([], 0))
     = Inr [''output'' \<mapsto> []]
   \<and> fst (APIChain_call (with_get counting_get (weather_chain None)) weather_inputs
            (snd (APIChain_call (with_get counting_get (weather_chain None)) weather_inputs
                    ([], 0))))
     = Inr [''output'' \<mapsto> ''x'']"
  by (simp add: APIChain_call_def run_simps returnE_def with_get_def stub_chain_simps
      counting_get_def echo_api_response_def answer_kwargs_def)

section \<open>The observer and the inputs\<close>

text \<open>
  C9. In a blocking run that fetches \<open>raw\<close>, the callback manager is shown the URL
  and then \<open>raw\<close>, and nothing else: the log starts with the request, the first
  notification, the fetch and the notification of \<open>raw\<close>, and what follows holds no
  notification. The run knows the callback manager at these two texts only: another
  one that agrees with it there gives the same run. The notification of \<open>raw\<close> runs
  in the world the fetch left, before the parser: if it raises, the run ends there;
  if it returns, the parser, when one is configured and tests true, runs next in the
  world the notification left, and after it only the answer chain; with no such
  parser the answer chain runs next.
\<close>

theorem observer_sees_raw_response:
  assumes "inputs (question_key self) = Some question"
    and "predict (api_request_chain self) (request_kwargs question (api_docs self)) w0
           = (Inr api_url, w1)"
    and "on_text (callback_manager self) api_url ''green'' [CHR 0x0A] (verbose self) w1
           = (Inr (), w2)"
    and "get (requests_wrapper self) api_url w2 = (Inr raw, w3)"
  shows "on_text_calls (log_of (APIChain_call self inputs ([], w0))) = [api_url, raw]
       \<and> (\<exists>rest. log_of (APIChain_call self inputs ([], w0))
             = [RequestPredict (request_kwargs question (api_docs self)),
                OnText api_url ''green'' [CHR 0x0A] (verbose self),
                Get api_url,
                OnText raw ''yellow'' [CHR 0x0A] (verbose self)] @ rest
           \<and> on_text_calls rest = []
           \<and> parser_calls rest
               = (if (\<exists>parser. api_request_output_parser self = Some parser \<and> truthy parser)
                     \<and> fst (on_text (callback_manager self) raw ''yellow'' [CHR 0x0A]
                              (verbose self) w3) = Inr ()
                  then [raw] else []))
       \<and> (\<forall>cm.
             (\<forall>c e v. on_text cm api_url c e v = on_text (callback_manager self) api_url c e v)
             \<and> (\<forall>c e v. on_text cm raw c e v = on_text (callback_manager self) raw c e v) \<longrightarrow>
             APIChain_call (self\<lparr>callback_manager := cm\<rparr>) inputs ([], w0)
               = APIChain_call self inputs ([], w0))
       \<and> (\<forall>e w4.
             on_text (callback_manager self) raw ''yellow'' [CHR 0x0A] (verbose self) w3
               = (Inl e, w4) \<longrightarrow>
             APIChain_call self inputs ([], w0)
               = (Inl e,
                  [RequestPredict (request_kwargs question (api_docs self)),
                   OnText api_url ''green'' [CHR 0x0A] (verbose self),
                   Get api_url,
                   OnText raw ''yellow'' [CHR 0x0A] (verbose self)],
                  w4))
       \<and> (\<forall>w4 parser e w5.
             on_text (callback_manager self) raw ''yellow'' [CHR 0x0A] (verbose self) w3
               = (Inr (), w4)
             \<and> api_request_output_parser self = Some parser \<and> truthy parser
             \<and> apply_parser parser raw w4 = (Inl e, w5) \<longrightarrow>
             APIChain_call self inputs ([], w0)
               = (Inl e,
                  [RequestPredict (request_kwargs question (api_docs self)),
                   OnText api_url ''green'' [CHR 0x0A] (verbose self),
                   Get api_url,
                   OnText raw ''yellow'' [CHR 0x0A] (verbose self),
                   OutputParser raw],
                  w5))
       \<and> (\<forall>w4 parser normalized w5.
             on_text (callback_manager self) raw ''yellow'' [CHR 0x0A] (verbose self) w3
               = (Inr (), w4)
             \<and> api_request_output_parser self = Some parser \<and> truthy parser
             \<and> apply_parser parser raw w4 = (Inr normalized, w5) \<longrightarrow>
             APIChain_call self inputs ([], w0)
               = (map_sum id (\<lambda>answer. [output_key self \<mapsto> answer])
                    (fst (predict (api_answer_chain self)
                            (answer_kwargs question (api_docs self) api_url normalized) w5)),
                  [RequestPredict (request_kwargs question (api_docs self)),
                   OnText api_url ''green'' [CHR 0x0A] (verbose self),
                   Get api_url,
                   OnText raw ''yellow'' [CHR 0x0A] (verbose self),
                   OutputParser raw,
                   AnswerPredict (answer_kwargs question (api_docs self) api_url normalized)],
                  snd (predict (api_answer_chain self)
                         (answer_kwargs question (api_docs self) api_url normalized) w5)))
       \<and> (\<forall>w4.
             on_text (callback_manager self) raw ''yellow'' [CHR 0x0A] (verbose self) w3
               = (Inr (), w4)
             \<and> (\<forall>parser. api_request_output_parser self = Some parser \<longrightarrow> \<not> truthy parser) \<longrightarrow>
             APIChain_call self inputs ([], w0)
               = (map_sum id (\<lambda>answer. [output_key self \<mapsto> answer])
                    (fst (predict (api_answer_chain self)
                            (answer_kwargs question (api_docs self) api_url raw) w4)),
                  [RequestPredict (request_kwargs question (api_docs self)),
                   OnText api_url ''green'' [CHR 0x0A] (verbose self),
                   Get api_url,
                   OnText raw ''yellow'' [CHR 0x0A] (verbose self),
                   AnswerPredict (answer_kwargs question (api_docs self) api_url raw)],
                  snd (predict (api_answer_chain self)
                         (answer_kwargs question (api_docs self) api_url raw) w4)))"
proof -
  have labels: "on_text_calls (log_of (APIChain_call self inputs ([], w0))) = [api_url, raw]"
    using assms
    by (simp add: APIChain_call_def run_simps log_of_def returnE_def
        split: sum.splits option.splits)
  have order: "\<exists>rest. log_of (APIChain_call self inputs ([], w0))
             = [RequestPredict (request_kwargs question (api_docs self)),
                OnText api_url ''green'' [CHR 0x0A] (verbose self),
                Get api_url,
                OnText raw ''yellow'' [CHR 0x0A] (verbose self)] @ rest
           \<and> on_text_calls rest = []
           \<and> parser_calls rest
               = (if (\<exists>parser. api_request_output_parser self = Some parser \<and> truthy parser)
                     \<and> fst (on_text (callback_manager self) raw ''yellow'' [CHR 0x0A]
                              (verbose self) w3) = Inr ()
                  then [raw] else [])"
    using assms
    by (simp add: APIChain_call_def run_simps log_of_def returnE_def
        split: sum.splits option.splits)
  have only_there: "APIChain_call (self\<lparr>callback_manager := cm\<rparr>) inputs ([], w0)
               = APIChain_call self inputs ([], w0)"
    if "\<forall>c e v. on_text cm api_url c e v = on_text (callback_manager self) api_url c e v"
      and "\<forall>c e v. on_text cm raw c e v = on_text (callback_manager self) raw c e v" for cm
    using assms that
    by (simp add: APIChain_call_def run_simps split: sum.splits option.splits)
  have raises: "APIChain_call self inputs ([], w0)
               = (Inl e,
                  [RequestPredict (request_kwargs question (api_docs self)),
                   OnText api_url ''green'' [CHR 0x0A] (verbose self),
                   Get api_url,
                   OnText raw ''yellow'' [CHR 0x0A] (verbose self)],
                  w4)"
    if "on_text (callback_manager self) raw ''yellow'' [CHR 0x0A] (verbose self) w3
               = (Inl e, w4)" for e w4
    using assms that by (simp add: APIChain_call_def run_simps)
  have parser_raises: "APIChain_call self inputs ([], w0)
               = (Inl e,
                  [RequestPredict (request_kwargs question (api_docs self)),
                   OnText api_url ''green'' [CHR 0x0A] (verbose self),
                   Get api_url,
                   OnText raw ''yellow'' [CHR 0x0A] (verbose self),
                   OutputParser raw],
                  w5)"
    if "on_text (callback_manager self) raw ''yellow'' [CHR 0x0A] (verbose self) w3
               = (Inr (), w4)"
      and "api_request_output_parser self = Some parser" and "truthy parser"
      and "apply_parser parser raw w4 = (Inl e, w5)" for w4 parser e w5
    using assms that by (simp add: APIChain_call_def run_simps)
  have parser_returns: "APIChain_call self inputs ([], w0)
               = (map_sum id (\<lambda>answer. [output_key self \<mapsto> answer])
                    (fst (predict (api_answer_chain self)
                            (answer_kwargs question (api_docs self) api_url normalized) w5)),
                  [RequestPredict (request_kwargs question (api_docs self)),
                   OnText api_url ''green'' [CHR 0x0A] (verbose self),
                   Get api_url,
                   OnText raw ''yellow'' [CHR 0x0A] (verbose self),
                   OutputParser raw,
                   AnswerPredict (answer_kwargs question (api_docs self) api_url normalized)],
                  snd (predict (api_answer_chain self)
                         (answer_kwargs question (api_docs self) api_url normalized) w5))"
    if "on_text (callback_manager self) raw ''yellow'' [CHR 0x0A] (verbose self) w3
               = (Inr (), w4)"
      and "api_request_output_parser self = Some parser" and "truthy parser"
      and "apply_parser parser raw w4 = (Inr normalized, w5)" for w4 parser normalized w5
    using assms that
    by (simp add: APIChain_call_def run_simps returnE_def split: sum.splits)
  have no_parser: "APIChain_call self inputs ([], w0)
               = (map_sum id (\<lambda>answer. [output_key self \<mapsto> answer])
                    (fst (predict (api_answer_chain self)
                            (answer_kwargs question (api_docs self) api_url raw) w4)),
                  [RequestPredict (request_kwargs question (api_docs self)),
                   OnText api_url ''green'' [CHR 0x0A] (verbose self),
                   Get api_url,
                   OnText raw ''yellow'' [CHR 0x0A] (verbose self),
                   AnswerPredict (answer_kwargs question (api_docs self) api_url raw)],
                  snd (predict (api_answer_chain self)
                         (answer_kwargs question (api_docs self) api_url raw) w4))"
    if "on_text (callback_manager self) raw ''yellow'' [CHR 0x0A] (verbose self) w3
               = (Inr (), w4)"
      and "\<forall>parser. api_request_output_parser self = Some parser \<longrightarrow> \<not> truthy parser" for w4
    using assms that
    by (auto simp: APIChain_call_def run_simps returnE_def split: sum.splits option.splits)
  from labels order only_there raises parser_raises parser_returns no_parser
  show ?thesis by blast
qed

theorem observer_sees_raw_response_witness:
  \<open>on_text_calls (log_of (APIChain_call (weather_chain (Some upper_parser)) weather_inputs
       ([], ())))
     = [''https://api.weather/paris'', ''{"temp_c": 18}'']\<close>
proof -
  let ?self = "weather_chain (Some upper_parser) :: unit APIChain"
  have q: "weather_inputs (question_key ?self) = Some ''What is the weather in Paris?''"
    by (simp add: weather_simps)
  have p: "predict (api_request_chain ?self)
             (request_kwargs ''What is the weather in Paris?'' (api_docs ?self)) ()
           = (Inr ''https://api.weather/paris'', ())"
    by (simp add: weather_simps)
  have n: "on_text (callback_manager ?self) ''https://api.weather/paris'' ''green'' [CHR 0x0A]
             (verbose ?self) () = (Inr (), ())"
    by (simp add: weather_simps)
  have g: \<open>get (requests_wrapper ?self) ''https://api.weather/paris'' ()
             = (Inr ''{"temp_c": 18}'', ())\<close>
    by (simp add: weather_simps)
  from observer_sees_raw_response
         [of weather_inputs ?self "''What is the weather in Paris?''" "()"
             "''https://api.weather/paris''" "()" "()" \<open>''{"temp_c": 18}''\<close> "()", OF q p n g]
  show ?thesis by (rule conjunct1)
qed

text \<open>
  C10. The inputs are read at the question key only: two input mappings that agree
  there give the same run, with the same result, log and world.
\<close>

theorem only_question_key_is_read:
  assumes "inputs1 (question_key self) = inputs2 (question_key self)"
  shows "APIChain_call self inputs1 s = APIChain_call self inputs2 s"
  using assms by (simp add: APIChain_call_def bindE_getitem)

theorem only_question_key_is_read_witness:
  "APIChain_call (weather_chain None) (weather_inputs(''units'' \<mapsto> ''metric'')) ([], ())
     = APIChain_call (weather_chain None) weather_inputs ([], ())"
  using only_question_key_is_read
          [of "weather_inputs(''units'' \<mapsto> ''metric'')" "weather_chain None" weather_inputs
              "([], ())"]
  by (simp add: weather_simps)

end
